theory Spec2Isabelle
  imports Main
begin

section \<open>Data model of the transaction explainer route\<close>

text \<open>
  The route handler \<open>GET\<close> of the transaction endpoint and its helper
  \<open>guessChangeOutputIndex\<close> are embedded here. A JavaScript string is a sequence of
  UTF-16 code units; a code unit is an integer (from 0 to 65535). A JavaScript \<open>number\<close> that holds
  an amount, a count or an index is an integer (\<open>int\<close>) and its arithmetic is exact;
  non-integral numbers, NaN and sums beyond the exact range of a double are outside the
  model. An optional or nullable field is an \<open>option\<close>.
\<close>

type_synonym jsstring = "int list"

definition str :: "string \<Rightarrow> jsstring" where
  "str s = map of_char s"

text \<open>The upstream JSON of a transaction (the local type \<open>BlockstreamTx\<close>). The handler
  reads \<open>fee\<close> through \<open>??\<close>, so the field may be absent.\<close>

record Vin =
  vin_txid :: jsstring
  vin_vout :: int
  is_coinbase :: "bool option"

record Vout =
  vout_value :: int
  scriptpubkey_address :: "jsstring option"
  scriptpubkey_type :: "jsstring option"

record Status =
  st_confirmed :: bool
  block_height :: "int option"
  block_hash :: "jsstring option"
  block_time :: "int option"

record BlockstreamTx =
  tx_txid :: jsstring
  tx_fee :: "int option"
  tx_version :: int
  tx_locktime :: int
  tx_size :: int
  tx_weight :: int
  tx_vin :: "Vin list"
  tx_vout :: "Vout list"
  tx_status :: Status

record Outspend =
  os_spent :: bool

text \<open>The response types (\<open>EnrichedInput\<close>, \<open>EnrichedOutput\<close>, \<open>TxStatus\<close>,
  \<open>TxDetails\<close>, \<open>TxExplainerResponse\<close>).\<close>

record EnrichedInput =
  in_txid :: jsstring
  in_vout :: int
  in_value :: int
  in_address :: "jsstring option"
  in_scriptType :: "jsstring option"
  isCoinbase :: bool

record EnrichedOutput =
  out_txid :: jsstring
  out_vout :: nat
  out_value :: int
  out_address :: "jsstring option"
  out_scriptType :: "jsstring option"
  spent :: bool

record TxStatus =
  confirmed :: bool
  blockHeight :: "int option"
  blockHash :: "jsstring option"
  blockTime :: "int option"

record TxDetails =
  version :: int
  locktime :: int
  size_bytes :: int
  weight :: int
  vinCount :: nat
  voutCount :: nat

record TxExplainerResponse =
  txid :: jsstring
  fee :: int
  totalInput :: int
  totalOutput :: int
  inputs :: "EnrichedInput list"
  outputs :: "EnrichedOutput list"
  status :: TxStatus
  details :: TxDetails
  rawHex :: jsstring
  changeOutputIndex :: "nat option"

text \<open>What \<open>NextResponse.json\<close> carries: the result with status 200, or an error message
  with its status.\<close>

datatype NextResponse = Success TxExplainerResponse | Failure nat jsstring

section \<open>JavaScript primitives used by the handler\<close>

text \<open>Truthiness of a \<open>string | null\<close> value (the empty string is falsy) and of an
  optional boolean.\<close>

definition truthy_str :: "jsstring option \<Rightarrow> bool" where
  "truthy_str a \<longleftrightarrow> a \<noteq> None \<and> a \<noteq> Some []"

definition truthy_bool :: "bool option \<Rightarrow> bool" where
  "truthy_bool b \<longleftrightarrow> b = Some True"

text \<open>The expression \<open>rawTxid ?? ""\<close>.\<close>

definition or_empty :: "jsstring option \<Rightarrow> jsstring" where
  "or_empty raw = (case raw of None \<Rightarrow> [] | Some s \<Rightarrow> s)"

text \<open>Reading an array at an index: \<open>undefined\<close> (here \<open>None\<close>) outside the array.\<close>

definition at_index :: "'a list \<Rightarrow> nat \<Rightarrow> 'a option" where
  "at_index xs i = (if i < length xs then Some (xs ! i) else None)"

definition at_number :: "'a list \<Rightarrow> int \<Rightarrow> 'a option" where
  "at_number xs i = (if 0 \<le> i \<and> i < int (length xs) then Some (xs ! nat i) else None)"

text \<open>\<open>Array.prototype.map\<close> with the index argument.\<close>

definition map_indexed :: "('a \<Rightarrow> nat \<Rightarrow> 'b) \<Rightarrow> 'a list \<Rightarrow> 'b list" where
  "map_indexed f xs = map (\<lambda>(idx, x). f x idx) (enumerate 0 xs)"

text \<open>\<open>Array.prototype.sort\<close> with a comparator. The sort of ECMAScript is stable; an
  insertion sort that puts an element before the first later element it does not exceed
  is the stable sort for a consistent comparator.\<close>

fun insert_cmp :: "('a \<Rightarrow> 'a \<Rightarrow> int) \<Rightarrow> 'a \<Rightarrow> 'a list \<Rightarrow> 'a list" where
  "insert_cmp cmp x [] = [x]"
| "insert_cmp cmp x (y # ys) =
     (if cmp x y \<le> 0 then x # y # ys else y # insert_cmp cmp x ys)"

definition sort_cmp :: "('a \<Rightarrow> 'a \<Rightarrow> int) \<Rightarrow> 'a list \<Rightarrow> 'a list" where
  "sort_cmp cmp xs = foldr (insert_cmp cmp) xs []"

text \<open>\<open>String.prototype.trim\<close> removes WhiteSpace and LineTerminator code points from
  both ends.\<close>

definition isWhiteSpace :: "int \<Rightarrow> bool" where
  "isWhiteSpace c \<longleftrightarrow>
     c = 0x09 \<or> c = 0x0A \<or> c = 0x0B \<or> c = 0x0C \<or> c = 0x0D \<or> c = 0x20 \<or> c = 0xA0 \<or>
     c = 0x1680 \<or> (0x2000 \<le> c \<and> c \<le> 0x200A) \<or> c = 0x2028 \<or> c = 0x2029 \<or>
     c = 0x202F \<or> c = 0x205F \<or> c = 0x3000 \<or> c = 0xFEFF"

definition trim :: "jsstring \<Rightarrow> jsstring" where
  "trim s = rev (dropWhile isWhiteSpace (rev (dropWhile isWhiteSpace s)))"

text \<open>The test \<open>/^[0-9a-fA-F]{64}$/.test(txid)\<close>.\<close>

definition isHexDigit :: "int \<Rightarrow> bool" where
  "isHexDigit c \<longleftrightarrow>
     (0x30 \<le> c \<and> c \<le> 0x39) \<or> (0x61 \<le> c \<and> c \<le> 0x66) \<or> (0x41 \<le> c \<and> c \<le> 0x46)"

definition txid_regex_test :: "jsstring \<Rightarrow> bool" where
  "txid_regex_test s \<longleftrightarrow> length s = 64 \<and> list_all isHexDigit s"

text \<open>\<open>Promise.all\<close>: the list of results when every promise is fulfilled, a rejection
  otherwise. The handler never inspects which rejection it got.\<close>

fun Promise_all :: "('e + 'a) list \<Rightarrow> 'e + 'a list" where
  "Promise_all [] = Inr []"
| "Promise_all (Inl e # ps) = Inl e"
| "Promise_all (Inr a # ps) =
     (case Promise_all ps of Inl e \<Rightarrow> Inl e | Inr as \<Rightarrow> Inr (a # as))"

section \<open>The ledger client\<close>

text \<open>
  The upstream service answers a request for a path with a network error or with a
  response: its status and its body, decoded at the type the caller reads it at
  (\<open>None\<close> when the body does not decode). The three views are the three types the
  handler reads bodies at.
\<close>

datatype 'a http = NetworkError | Response nat "'a option"

record upstream =
  tx_json :: "jsstring \<Rightarrow> BlockstreamTx http"
  text_body :: "jsstring \<Rightarrow> jsstring http"
  outspends_json :: "jsstring \<Rightarrow> Outspend list http"

datatype fetch_error = FetchRejected | UpstreamApiError nat jsstring | BodyRejected

definition res_ok :: "nat \<Rightarrow> bool" where
  "res_ok st \<longleftrightarrow> 200 \<le> st \<and> st \<le> 299"

definition fetchJson :: "(jsstring \<Rightarrow> 'a http) \<Rightarrow> jsstring \<Rightarrow> fetch_error + 'a" where
  "fetchJson fetch path =
     (case fetch path of
        NetworkError \<Rightarrow> Inl FetchRejected
      | Response st b \<Rightarrow>
          if \<not> res_ok st then Inl (UpstreamApiError st path)
          else (case b of None \<Rightarrow> Inl BodyRejected | Some v \<Rightarrow> Inr v))"

definition fetchText :: "(jsstring \<Rightarrow> jsstring http) \<Rightarrow> jsstring \<Rightarrow> fetch_error + jsstring" where
  "fetchText fetch path =
     (case fetch path of
        NetworkError \<Rightarrow> Inl FetchRejected
      | Response st b \<Rightarrow>
          if \<not> res_ok st then Inl (UpstreamApiError st path)
          else (case b of None \<Rightarrow> Inl BodyRejected | Some v \<Rightarrow> Inr v))"

section \<open>Aggregation and the change heuristic\<close>

text \<open>The sum of the output values. An output and its \<open>value\<close> are present by their
  types, so the default of \<open>o?.value ?? 0\<close> is never taken; the same holds for
  \<open>i.value ?? 0\<close> in the handler.\<close>

definition satsFromOutputs :: "Vout list \<Rightarrow> int" where
  "satsFromOutputs outs = foldl (\<lambda>sum out. sum + vout_value out) 0 outs"

definition DUST_THRESHOLD :: int where
  "DUST_THRESHOLD = 1000"

text \<open>A candidate \<open>{ o, idx }\<close> is the pair of the output and its index.\<close>

definition guessChangeOutputIndex :: "EnrichedInput list \<Rightarrow> EnrichedOutput list \<Rightarrow> nat option" where
  "guessChangeOutputIndex ins outs =
     (if length outs < 2 then None
      else
        let inputAddresses = set (filter truthy_str (map in_address ins));
            paired = map_indexed (\<lambda>out idx. (out, idx)) outs;
            matched = filter (\<lambda>(out, idx). truthy_str (out_address out) \<and> out_address out \<in> inputAddresses) paired;
            candidates = (if length matched = 0 then paired else matched);
            nonDust = filter (\<lambda>(out, idx). out_value out > DUST_THRESHOLD) candidates;
            base = (if length nonDust > 0 then nonDust else candidates);
            sorted = sort_cmp (\<lambda>a b. out_value (fst a) - out_value (fst b)) base
        in (case sorted of [] \<Rightarrow> None | c # _ \<Rightarrow> Some (snd c)))"

section \<open>The route handler\<close>

definition tx_path :: "jsstring \<Rightarrow> jsstring" where
  "tx_path t = str ''/tx/'' @ t"

definition hex_path :: "jsstring \<Rightarrow> jsstring" where
  "hex_path t = str ''/tx/'' @ t @ str ''/hex''"

definition outspends_path :: "jsstring \<Rightarrow> jsstring" where
  "outspends_path t = str ''/tx/'' @ t @ str ''/outspends''"

definition invalid_txid_message :: jsstring where
  "invalid_txid_message = str ''Please provide a valid 64-character hex transaction id.''"

definition upstream_failure_message :: jsstring where
  "upstream_failure_message =
     str ''Failed to fetch or decode transaction from Blockstream testnet API.''"

text \<open>The request one input sends for its previous transaction: none for a coinbase
  input.\<close>

definition prevTx_request :: "Vin \<Rightarrow> jsstring option" where
  "prevTx_request v = (if truthy_bool (is_coinbase v) then None else Some (tx_path (vin_txid v)))"

definition prevTx_promise :: "upstream \<Rightarrow> Vin \<Rightarrow> fetch_error + BlockstreamTx option" where
  "prevTx_promise up v =
     (case prevTx_request v of
        None \<Rightarrow> Inr None
      | Some p \<Rightarrow> (case fetchJson (tx_json up) p of Inl e \<Rightarrow> Inl e | Inr t \<Rightarrow> Inr (Some t)))"

text \<open>One element of \<open>enrichedInputs\<close>; \<open>vin.vout\<close> is a number by its type, so the
  \<open>typeof\<close> test holds.\<close>

definition enrichInput :: "BlockstreamTx option list \<Rightarrow> Vin \<Rightarrow> nat \<Rightarrow> EnrichedInput" where
  "enrichInput prevTxs v index =
     (let prevTx = (case at_index prevTxs index of None \<Rightarrow> None | Some p \<Rightarrow> p);
          prevOut = (case prevTx of None \<Rightarrow> None | Some p \<Rightarrow> at_number (tx_vout p) (vin_vout v))
      in \<lparr> in_txid = vin_txid v,
           in_vout = vin_vout v,
           in_value = (case prevOut of None \<Rightarrow> 0 | Some po \<Rightarrow> vout_value po),
           in_address = (case prevOut of None \<Rightarrow> None | Some po \<Rightarrow> scriptpubkey_address po),
           in_scriptType = (case prevOut of None \<Rightarrow> None | Some po \<Rightarrow> scriptpubkey_type po),
           isCoinbase = truthy_bool (is_coinbase v) \<rparr>)"

definition enrichOutput :: "jsstring \<Rightarrow> Outspend list \<Rightarrow> Vout \<Rightarrow> nat \<Rightarrow> EnrichedOutput" where
  "enrichOutput t outspends vo index =
     (let spendInfo = at_index outspends index
      in \<lparr> out_txid = t,
           out_vout = index,
           out_value = vout_value vo,
           out_address = scriptpubkey_address vo,
           out_scriptType = scriptpubkey_type vo,
           spent = (case spendInfo of None \<Rightarrow> False | Some s \<Rightarrow> os_spent s) \<rparr>)"

text \<open>The body of the \<open>try\<close> block after both joins: everything between the second
  \<open>Promise.all\<close> and \<open>NextResponse.json(result)\<close>.\<close>

definition explain ::
  "jsstring \<Rightarrow> BlockstreamTx \<Rightarrow> jsstring \<Rightarrow> Outspend list \<Rightarrow> BlockstreamTx option list
     \<Rightarrow> TxExplainerResponse" where
  "explain t tx hex outspends prevTxs =
     (let enrichedInputs = map_indexed (enrichInput prevTxs) (tx_vin tx);
          enrichedOutputs = map_indexed (enrichOutput t outspends) (tx_vout tx);
          tIn = foldl (\<lambda>sum i. sum + in_value i) 0 enrichedInputs;
          tOut = satsFromOutputs (tx_vout tx);
          f = (case tx_fee tx of Some declared \<Rightarrow> declared | None \<Rightarrow> max (tIn - tOut) 0)
      in \<lparr> txid = tx_txid tx,
           fee = f,
           totalInput = tIn,
           totalOutput = tOut,
           inputs = enrichedInputs,
           outputs = enrichedOutputs,
           status = \<lparr> confirmed = st_confirmed (tx_status tx),
                      blockHeight = block_height (tx_status tx),
                      blockHash = block_hash (tx_status tx),
                      blockTime = block_time (tx_status tx) \<rparr>,
           details = \<lparr> version = tx_version tx,
                       locktime = tx_locktime tx,
                       size_bytes = tx_size tx,
                       weight = tx_weight tx,
                       vinCount = length (tx_vin tx),
                       voutCount = length (tx_vout tx) \<rparr>,
           rawHex = hex,
           changeOutputIndex = guessChangeOutputIndex enrichedInputs enrichedOutputs \<rparr>)"

text \<open>
  The handler returns its response together with the upstream paths it requested, in
  the order of the calls. The three requests of the first join are all sent before any
  of them is awaited, and so are the requests of the second join; a rejection of either
  join reaches the \<open>catch\<close> block.
\<close>

definition GET :: "upstream \<Rightarrow> jsstring option \<Rightarrow> NextResponse \<times> jsstring list" where
  "GET up rawTxid =
     (let t = trim (or_empty rawTxid) in
      if \<not> txid_regex_test t then (Failure 400 invalid_txid_message, [])
      else
        let calls1 = [tx_path t, hex_path t, outspends_path t] in
        (case (fetchJson (tx_json up) (tx_path t),
               fetchText (text_body up) (hex_path t),
               fetchJson (outspends_json up) (outspends_path t)) of
           (Inr tx, Inr hex, Inr outspends) \<Rightarrow>
             (let calls2 = List.map_filter prevTx_request (tx_vin tx) in
              case Promise_all (map (prevTx_promise up) (tx_vin tx)) of
                Inr prevTxs \<Rightarrow> (Success (explain t tx hex outspends prevTxs), calls1 @ calls2)
              | Inl e \<Rightarrow> (Failure 502 upstream_failure_message, calls1 @ calls2))
         | _ \<Rightarrow> (Failure 502 upstream_failure_message, calls1)))"

section \<open>The change heuristic as the specification words it\<close>

text \<open>
  The selection rule of the specification, over indices into the output sequence and
  written independently of the code: the outputs whose address is present and appears
  among the input addresses (all outputs when there is none), of these the ones above
  1000 smallest-units (all of them when there is none), and of these the smallest value,
  the first one in output order on a tie. What counts as a present address is a
  parameter.
\<close>

definition is_present :: "jsstring option \<Rightarrow> bool" where
  "is_present a \<longleftrightarrow> a \<noteq> None"

definition present_nonempty :: "jsstring option \<Rightarrow> bool" where
  "present_nonempty a \<longleftrightarrow> (case a of None \<Rightarrow> False | Some s \<Rightarrow> s \<noteq> [])"

definition address_matches ::
  "(jsstring option \<Rightarrow> bool) \<Rightarrow> EnrichedInput list \<Rightarrow> EnrichedOutput list \<Rightarrow> nat list" where
  "address_matches present ins outs =
     filter (\<lambda>i. present (out_address (outs ! i)) \<and> out_address (outs ! i) \<in> in_address ` set ins)
       [0..<length outs]"

definition spec_candidates ::
  "(jsstring option \<Rightarrow> bool) \<Rightarrow> EnrichedInput list \<Rightarrow> EnrichedOutput list \<Rightarrow> nat list" where
  "spec_candidates present ins outs =
     (if address_matches present ins outs = [] then [0..<length outs]
      else address_matches present ins outs)"

definition spec_remaining ::
  "(jsstring option \<Rightarrow> bool) \<Rightarrow> EnrichedInput list \<Rightarrow> EnrichedOutput list \<Rightarrow> nat list" where
  "spec_remaining present ins outs =
     (if filter (\<lambda>i. out_value (outs ! i) > 1000) (spec_candidates present ins outs) = []
      then spec_candidates present ins outs
      else filter (\<lambda>i. out_value (outs ! i) > 1000) (spec_candidates present ins outs))"

definition smallest_first :: "EnrichedOutput list \<Rightarrow> nat list \<Rightarrow> nat \<Rightarrow> bool" where
  "smallest_first outs S i \<longleftrightarrow>
     i \<in> set S \<and> (\<forall>j \<in> set S. out_value (outs ! i) \<le> out_value (outs ! j))
     \<and> (\<forall>j \<in> set S. out_value (outs ! j) = out_value (outs ! i) \<longrightarrow> i \<le> j)"

section \<open>Sample data\<close>

definition sample_txid :: jsstring where
  "sample_txid = replicate 64 0x61"

definition addrA :: jsstring where
  "addrA = str ''tb1qa''"

definition addrB :: jsstring where
  "addrB = str ''tb1qb''"

definition sample_input :: "jsstring option \<Rightarrow> EnrichedInput" where
  "sample_input a =
     \<lparr> in_txid = str ''p1'', in_vout = 0, in_value = 10000, in_address = a,
       in_scriptType = None, isCoinbase = False \<rparr>"

definition sample_output :: "nat \<Rightarrow> int \<Rightarrow> jsstring option \<Rightarrow> EnrichedOutput" where
  "sample_output i v a =
     \<lparr> out_txid = sample_txid, out_vout = i, out_value = v, out_address = a,
       out_scriptType = None, spent = False \<rparr>"

text \<open>Four outputs: a dust output and two equal outputs to the input address, and a
  smaller output to another address.\<close>

definition tie_outputs :: "EnrichedOutput list" where
  "tie_outputs =
     [sample_output 0 500 (Some addrA), sample_output 1 3000 (Some addrA),
      sample_output 2 2000 (Some addrB), sample_output 3 3000 (Some addrA)]"

text \<open>An input and an output that both carry the empty string as address.\<close>

definition empty_address_outputs :: "EnrichedOutput list" where
  "empty_address_outputs = [sample_output 0 5000 (Some []), sample_output 1 2000 (Some addrB)]"

text \<open>An upstream for one transaction: a coinbase input, two inputs spending outputs
  of \<open>p1\<close> (the second at an index \<open>p1\<close> does not have) and one input spending an output
  of \<open>p2\<close>. The declared fee, the value of the second output and the status of the
  answer for \<open>p2\<close> are parameters.\<close>

definition no_status :: Status where
  "no_status = \<lparr> st_confirmed = False, block_height = None, block_hash = None, block_time = None \<rparr>"

definition funding_tx :: "jsstring \<Rightarrow> int \<Rightarrow> BlockstreamTx" where
  "funding_tx t v =
     \<lparr> tx_txid = t, tx_fee = Some 0, tx_version = 2, tx_locktime = 0, tx_size = 100,
       tx_weight = 400, tx_vin = [],
       tx_vout = [\<lparr> vout_value = v, scriptpubkey_address = Some addrA,
                   scriptpubkey_type = Some (str ''v0_p2wpkh'') \<rparr>],
       tx_status = no_status \<rparr>"

definition sample_tx :: "int option \<Rightarrow> int \<Rightarrow> BlockstreamTx" where
  "sample_tx declared v1 =
     \<lparr> tx_txid = sample_txid, tx_fee = declared, tx_version = 2, tx_locktime = 0,
       tx_size = 300, tx_weight = 1200,
       tx_vin = [\<lparr> vin_txid = str ''p0'', vin_vout = 4294967295, is_coinbase = Some True \<rparr>,
                 \<lparr> vin_txid = str ''p1'', vin_vout = 0, is_coinbase = None \<rparr>,
                 \<lparr> vin_txid = str ''p1'', vin_vout = 7, is_coinbase = Some False \<rparr>,
                 \<lparr> vin_txid = str ''p2'', vin_vout = 0, is_coinbase = None \<rparr>],
       tx_vout = [\<lparr> vout_value = 70000, scriptpubkey_address = Some addrA, scriptpubkey_type = None \<rparr>,
                  \<lparr> vout_value = v1, scriptpubkey_address = Some addrB, scriptpubkey_type = None \<rparr>],
       tx_status = no_status \<rparr>"

definition sample_upstream :: "int option \<Rightarrow> int \<Rightarrow> nat \<Rightarrow> upstream" where
  "sample_upstream declared v1 st2 =
     \<lparr> tx_json = (\<lambda>p. if p = tx_path sample_txid then Response 200 (Some (sample_tx declared v1))
                       else if p = tx_path (str ''p1'') then Response 200 (Some (funding_tx (str ''p1'') 50000))
                       else if p = tx_path (str ''p2'') then Response st2 (Some (funding_tx (str ''p2'') 30000))
                       else Response 404 None),
       text_body = (\<lambda>p. Response 200 (Some (str ''0200''))),
       outspends_json = (\<lambda>p. Response 200 (Some [\<lparr> os_spent = True \<rparr>])) \<rparr>"

text \<open>The result the handler computes for it when every request is answered.\<close>

definition sample_result :: "int option \<Rightarrow> int \<Rightarrow> TxExplainerResponse" where
  "sample_result declared v1 =
     explain sample_txid (sample_tx declared v1) (str ''0200'') [\<lparr> os_spent = True \<rparr>]
       [None, Some (funding_tx (str ''p1'') 50000), Some (funding_tx (str ''p1'') 50000),
        Some (funding_tx (str ''p2'') 30000)]"

definition padded_txid :: jsstring where
  "padded_txid = str '' '' @ sample_txid @ [0x0A]"

section \<open>Arrays, sorting and joins\<close>

lemma length_map_indexed [simp]: "length (map_indexed f xs) = length xs"
  by (simp add: map_indexed_def)

lemma nth_map_indexed [simp]: "i < length xs \<Longrightarrow> map_indexed f xs ! i = f (xs ! i) i"
  by (simp add: map_indexed_def nth_enumerate_eq)

lemma map_indexed_upt: "map_indexed f xs = map (\<lambda>i. f (xs ! i) i) [0..<length xs]"
  by (rule nth_equalityI) simp_all

lemma sort_cmp_Cons: "sort_cmp cmp (x # xs) = insert_cmp cmp x (sort_cmp cmp xs)"
  by (simp add: sort_cmp_def)

lemma sort_cmp_Nil [simp]: "sort_cmp cmp [] = []"
  by (simp add: sort_cmp_def)

lemma insert_cmp_not_Nil [simp]: "insert_cmp cmp x ys \<noteq> []"
  by (cases ys) auto

lemma sort_cmp_eq_Nil [simp]: "sort_cmp cmp xs = [] \<longleftrightarrow> xs = []"
  by (cases xs) (simp_all add: sort_cmp_Cons)

lemma hd_insert_cmp:
  "hd (insert_cmp cmp x ys) = (if ys = [] \<or> cmp x (hd ys) \<le> 0 then x else hd ys)"
  by (cases ys) auto

text \<open>The head of the sorted array is the first element of least key: everything
  before it in the unsorted array has a larger key, nothing after it a smaller one.\<close>

lemma hd_sort_cmp_key:
  fixes key :: "'a \<Rightarrow> int"
  assumes "xs \<noteq> []"
  shows "\<exists>ys zs. xs = ys @ hd (sort_cmp (\<lambda>a b. key a - key b) xs) # zs
           \<and> (\<forall>y \<in> set ys. key (hd (sort_cmp (\<lambda>a b. key a - key b) xs)) < key y)
           \<and> (\<forall>z \<in> set zs. key (hd (sort_cmp (\<lambda>a b. key a - key b) xs)) \<le> key z)"
  using assms
proof (induction xs)
  case Nil
  then show ?case by simp
next
  case (Cons x xs)
  let ?s = "sort_cmp (\<lambda>a b. key a - key b)"
  show ?case
  proof (cases "xs = []")
    case True
    then have "x # xs = [] @ hd (?s (x # xs)) # []
           \<and> (\<forall>y \<in> set []. key (hd (?s (x # xs))) < key y)
           \<and> (\<forall>z \<in> set []. key (hd (?s (x # xs))) \<le> key z)"
      by (simp add: sort_cmp_Cons)
    then show ?thesis by blast
  next
    case False
    from Cons.IH [OF False] obtain ys zs where
      split: "xs = ys @ hd (?s xs) # zs"
      and before: "\<forall>y \<in> set ys. key (hd (?s xs)) < key y"
      and after: "\<forall>z \<in> set zs. key (hd (?s xs)) \<le> key z"
      by blast
    show ?thesis
    proof (cases "key x \<le> key (hd (?s xs))")
      case True
      then have h: "hd (?s (x # xs)) = x"
        by (simp add: sort_cmp_Cons hd_insert_cmp)
      have "\<forall>z \<in> set xs. key x \<le> key z"
      proof
        fix z assume "z \<in> set xs"
        then have "z \<in> set ys \<or> z = hd (?s xs) \<or> z \<in> set zs"
          using split by (metis Un_iff set_ConsD set_append)
        then show "key x \<le> key z"
          using True before after by force
      qed
      then have "x # xs = [] @ hd (?s (x # xs)) # xs
           \<and> (\<forall>y \<in> set []. key (hd (?s (x # xs))) < key y)
           \<and> (\<forall>z \<in> set xs. key (hd (?s (x # xs))) \<le> key z)"
        using h by simp
      then show ?thesis by blast
    next
      case gt: False
      then have h: "hd (?s (x # xs)) = hd (?s xs)"
        using False by (simp add: sort_cmp_Cons hd_insert_cmp)
      have "x # xs = (x # ys) @ hd (?s (x # xs)) # zs
           \<and> (\<forall>y \<in> set (x # ys). key (hd (?s (x # xs))) < key y)
           \<and> (\<forall>z \<in> set zs. key (hd (?s (x # xs))) \<le> key z)"
        using h split before after gt by auto
      then show ?thesis by blast
    qed
  qed
qed

lemma Promise_all_map_Inr: "Promise_all (map Inr xs) = Inr xs"
  by (induction xs) auto

lemma Promise_all_InrD: "Promise_all ps = Inr xs \<Longrightarrow> ps = map Inr xs"
  by (induction ps arbitrary: xs rule: Promise_all.induct) (auto split: sum.splits)

lemma Promise_all_Inr_iff: "Promise_all ps = Inr xs \<longleftrightarrow> ps = map Inr xs"
  using Promise_all_map_Inr Promise_all_InrD by blast

lemma Promise_all_rejects: "Inl e \<in> set ps \<Longrightarrow> \<exists>e'. Promise_all ps = Inl e'"
  by (induction ps rule: Promise_all.induct) (auto split: sum.splits)

section \<open>The change heuristic\<close>

lemma truthy_str_present_nonempty: "truthy_str = present_nonempty"
  by (auto simp: fun_eq_iff truthy_str_def present_nonempty_def split: option.splits)

lemma matched_eq:
  "filter (\<lambda>(out, idx). truthy_str (out_address out)
              \<and> out_address out \<in> set (filter truthy_str (map in_address ins)))
     (map_indexed (\<lambda>out idx. (out, idx)) outs)
   = map (\<lambda>i. (outs ! i, i)) (address_matches truthy_str ins outs)"
proof -
  have "\<And>a. (truthy_str a \<and> a \<in> set (filter truthy_str (map in_address ins)))
            = (truthy_str a \<and> a \<in> in_address ` set ins)"
    by auto
  then show ?thesis
    by (simp add: map_indexed_upt filter_map comp_def address_matches_def)
qed

lemma guessChangeOutputIndex_eq:
  "guessChangeOutputIndex ins outs =
     (if length outs < 2 then None
      else case sort_cmp (\<lambda>a b. out_value (fst a) - out_value (fst b))
                  (map (\<lambda>i. (outs ! i, i)) (spec_remaining truthy_str ins outs)) of
             [] \<Rightarrow> None | c # _ \<Rightarrow> Some (snd c))"
  unfolding guessChangeOutputIndex_def Let_def matched_eq
  by (simp add: spec_remaining_def spec_candidates_def DUST_THRESHOLD_def map_indexed_upt
        filter_map comp_def)

lemma spec_candidates_props:
  "sorted_wrt (<) (spec_candidates present ins outs)"
  "set (spec_candidates present ins outs) \<subseteq> {..<length outs}"
  "outs \<noteq> [] \<Longrightarrow> spec_candidates present ins outs \<noteq> []"
  by (auto simp: spec_candidates_def address_matches_def sorted_wrt_filter)

lemma spec_remaining_props:
  "sorted_wrt (<) (spec_remaining present ins outs)"
  "set (spec_remaining present ins outs) \<subseteq> {..<length outs}"
  "outs \<noteq> [] \<Longrightarrow> spec_remaining present ins outs \<noteq> []"
  using spec_candidates_props [where present = present and ins = ins and outs = outs]
  by (auto simp: spec_remaining_def sorted_wrt_filter)

lemma hd_sorted_indices:
  fixes outs :: "EnrichedOutput list"
  assumes "B \<noteq> []" and "sorted_wrt (<) B"
  shows "\<exists>i. hd (sort_cmp (\<lambda>a b. out_value (fst a) - out_value (fst b))
                  (map (\<lambda>i. (outs ! i, i)) B)) = (outs ! i, i)
             \<and> smallest_first outs B i"
proof -
  let ?f = "\<lambda>i. (outs ! i, i)"
  let ?m = "hd (sort_cmp (\<lambda>a b. out_value (fst a) - out_value (fst b)) (map ?f B))"
  from assms(1) have "map ?f B \<noteq> []" by simp
  from hd_sort_cmp_key [OF this, of "\<lambda>a. out_value (fst a)"]
  obtain ys zs where split: "map ?f B = ys @ ?m # zs"
    and before: "\<forall>y \<in> set ys. out_value (fst ?m) < out_value (fst y)"
    and after: "\<forall>z \<in> set zs. out_value (fst ?m) \<le> out_value (fst z)"
    by blast
  from split obtain B1 i B2 where B: "B = B1 @ i # B2"
    and ys: "ys = map ?f B1" and m: "?m = ?f i" and zs: "zs = map ?f B2"
    by (auto simp: map_eq_append_conv map_eq_Cons_conv)
  from assms(2) B have gt: "\<forall>j \<in> set B2. i < j"
    by (auto simp: sorted_wrt_append)
  have v1: "\<forall>j \<in> set B1. out_value (outs ! i) < out_value (outs ! j)"
    using before ys m by simp
  have v2: "\<forall>j \<in> set B2. out_value (outs ! i) \<le> out_value (outs ! j)"
    using after zs m by simp
  have "smallest_first outs B i"
    unfolding smallest_first_def B using v1 v2 gt by fastforce
  with m show ?thesis by blast
qed

text \<open>With two outputs or more the heuristic returns the index the rule selects, where
  an address counts as present when it is a non-empty string.\<close>

lemma guess_selects:
  assumes "2 \<le> length outs"
  shows "\<exists>i. guessChangeOutputIndex ins outs = Some i
           \<and> smallest_first outs (spec_remaining truthy_str ins outs) i"
proof -
  from assms have ne: "outs \<noteq> []" by auto
  let ?B = "spec_remaining truthy_str ins outs"
  let ?s = "sort_cmp (\<lambda>a b. out_value (fst a) - out_value (fst b)) (map (\<lambda>i. (outs ! i, i)) ?B)"
  from hd_sorted_indices [OF spec_remaining_props(3) [OF ne] spec_remaining_props(1)]
  obtain k where k: "hd ?s = (outs ! k, k)" and sf: "smallest_first outs ?B k"
    by blast
  have "?s \<noteq> []" using spec_remaining_props(3) [OF ne] by simp
  then have "guessChangeOutputIndex ins outs = Some (snd (hd ?s))"
    using assms by (simp add: guessChangeOutputIndex_eq split: list.splits)
  with k sf show ?thesis by simp
qed

section \<open>The route handler: validation, joins and the result\<close>

lemma hex_not_whitespace: "isHexDigit c \<Longrightarrow> \<not> isWhiteSpace c"
  by (auto simp: isHexDigit_def isWhiteSpace_def)

lemma trim_padded:
  assumes "h \<noteq> []" and "\<not> isWhiteSpace (hd h)" and "\<not> isWhiteSpace (last h)"
    and "\<forall>c \<in> set l. isWhiteSpace c" and "\<forall>c \<in> set r. isWhiteSpace c"
  shows "trim (l @ h @ r) = h"
proof -
  have "dropWhile isWhiteSpace (l @ h @ r) = dropWhile isWhiteSpace (h @ r)"
    using assms(4) by (simp add: dropWhile_append2)
  also have "\<dots> = h @ r"
    using assms(1,2) by (cases h) auto
  finally have 1: "dropWhile isWhiteSpace (l @ h @ r) = h @ r" .
  have "dropWhile isWhiteSpace (rev r @ rev h) = dropWhile isWhiteSpace (rev h)"
    by (rule dropWhile_append2) (use assms(5) in auto)
  also have "\<dots> = rev h"
    using assms(1,3) by (cases "rev h") (auto simp: last_rev [symmetric] simp del: last_rev)
  finally show ?thesis
    using 1 by (simp add: trim_def)
qed

lemma trim_txid:
  assumes "txid_regex_test h" and "list_all isWhiteSpace l" and "list_all isWhiteSpace r"
  shows "trim (l @ h @ r) = h"
proof -
  from assms(1) have ne: "h \<noteq> []" and hex: "\<forall>c \<in> set h. isHexDigit c"
    by (auto simp: txid_regex_test_def list_all_iff)
  from ne hex have "\<not> isWhiteSpace (hd h)" "\<not> isWhiteSpace (last h)"
    by (simp_all add: hex_not_whitespace)
  with ne assms(2,3) show ?thesis
    by (intro trim_padded) (simp_all add: list_all_iff)
qed

lemma GET_valid_not_400:
  "txid_regex_test (trim (or_empty raw))
     \<Longrightarrow> fst (GET up raw) \<noteq> Failure 400 invalid_txid_message \<and> snd (GET up raw) \<noteq> []"
  by (auto simp: GET_def Let_def split: sum.splits)

lemma GET_joined:
  assumes "t = trim (or_empty raw)"
    and "txid_regex_test t"
    and "fetchJson (tx_json up) (tx_path t) = Inr tx"
    and "fetchText (text_body up) (hex_path t) = Inr hex"
    and "fetchJson (outspends_json up) (outspends_path t) = Inr os"
  shows "GET up raw =
     (case Promise_all (map (prevTx_promise up) (tx_vin tx)) of
        Inr prevTxs \<Rightarrow> Success (explain t tx hex os prevTxs)
      | Inl e \<Rightarrow> Failure 502 upstream_failure_message,
      [tx_path t, hex_path t, outspends_path t] @ List.map_filter prevTx_request (tx_vin tx))"
  using assms by (simp add: GET_def Let_def split: sum.splits)

lemma GET_SuccessD:
  assumes "fst (GET up raw) = Success r"
  shows "\<exists>tx hex os prevTxs.
           txid_regex_test (trim (or_empty raw))
         \<and> fetchJson (tx_json up) (tx_path (trim (or_empty raw))) = Inr tx
         \<and> fetchText (text_body up) (hex_path (trim (or_empty raw))) = Inr hex
         \<and> fetchJson (outspends_json up) (outspends_path (trim (or_empty raw))) = Inr os
         \<and> map (prevTx_promise up) (tx_vin tx) = map Inr prevTxs
         \<and> r = explain (trim (or_empty raw)) tx hex os prevTxs"
  using assms
  by (auto simp: GET_def Let_def Promise_all_Inr_iff split: if_splits sum.splits)

lemma explain_fields:
  "fee (explain t tx hex os prevTxs) =
     (case tx_fee tx of Some declared \<Rightarrow> declared
      | None \<Rightarrow> max (totalInput (explain t tx hex os prevTxs) - totalOutput (explain t tx hex os prevTxs)) 0)"
  "totalInput (explain t tx hex os prevTxs) =
     foldl (\<lambda>sum i. sum + in_value i) 0 (map_indexed (enrichInput prevTxs) (tx_vin tx))"
  "totalOutput (explain t tx hex os prevTxs) = satsFromOutputs (tx_vout tx)"
  "inputs (explain t tx hex os prevTxs) = map_indexed (enrichInput prevTxs) (tx_vin tx)"
  by (simp_all add: explain_def Let_def split: option.splits)

lemma foldl_add_nonneg:
  fixes f :: "'a \<Rightarrow> int"
  shows "0 \<le> a \<Longrightarrow> \<forall>x \<in> set xs. 0 \<le> f x \<Longrightarrow> 0 \<le> foldl (\<lambda>sum x. sum + f x) a xs"
  by (induction xs arbitrary: a) auto

lemma prevTxs_nth:
  assumes "map (prevTx_promise up) vins = map Inr prevTxs" and "i < length vins"
  shows "at_index prevTxs i = Some (prevTxs ! i)"
    and "prevTx_promise up (vins ! i) = Inr (prevTxs ! i)"
proof -
  from assms(1) have len: "length prevTxs = length vins"
    by (metis length_map)
  with assms(2) show "at_index prevTxs i = Some (prevTxs ! i)"
    by (simp add: at_index_def)
  from assms len have "map (prevTx_promise up) vins ! i = map Inr prevTxs ! i"
    by simp
  with assms(2) len show "prevTx_promise up (vins ! i) = Inr (prevTxs ! i)"
    by simp
qed

lemma or_empty_Some [simp]: "or_empty (Some s) = s"
  by (simp add: or_empty_def)

lemma prevTx_promise_SomeD:
  "prevTx_promise up v = Inr (Some t) \<Longrightarrow> fetchJson (tx_json up) (tx_path (vin_txid v)) = Inr t"
  by (simp add: prevTx_promise_def prevTx_request_def split: if_splits sum.splits)

lemma prevTx_promise_Some_unflagged:
  "prevTx_promise up v = Inr (Some t) \<Longrightarrow> \<not> truthy_bool (is_coinbase v)"
  by (simp add: prevTx_promise_def prevTx_request_def split: if_splits sum.splits)

lemma prevTxs_fetched:
  assumes "map (prevTx_promise up) vins = map Inr prevTxs" and "Some t \<in> set prevTxs"
  shows "\<exists>v \<in> set vins. \<not> truthy_bool (is_coinbase v)
           \<and> fetchJson (tx_json up) (tx_path (vin_txid v)) = Inr t"
proof -
  from assms(2) have "Inr (Some t) \<in> Inr ` set prevTxs"
    by (rule imageI)
  also have "Inr ` set prevTxs = set (map Inr prevTxs)"
    by simp
  also have "\<dots> = set (map (prevTx_promise up) vins)"
    by (simp only: assms(1))
  also have "\<dots> = prevTx_promise up ` set vins"
    by simp
  finally obtain v where v: "v \<in> set vins" "prevTx_promise up v = Inr (Some t)"
    by (auto simp: image_iff)
  from v(2) have "fetchJson (tx_json up) (tx_path (vin_txid v)) = Inr t"
    by (rule prevTx_promise_SomeD)
  moreover from v(2) have "\<not> truthy_bool (is_coinbase v)"
    by (rule prevTx_promise_Some_unflagged)
  ultimately show ?thesis
    using v(1) by blast
qed

lemma enrichInput_value_nonneg:
  assumes "\<forall>t. Some t \<in> set prevTxs \<longrightarrow> (\<forall>out \<in> set (tx_vout t). 0 \<le> vout_value out)"
  shows "0 \<le> in_value (enrichInput prevTxs v i)"
proof -
  have "0 \<le> vout_value (tx_vout t ! nat k)"
    if "prevTxs ! i = Some t" and "i < length prevTxs" and "0 \<le> k" and "k < int (length (tx_vout t))"
    for t k
  proof -
    from that(1,2) have "Some t \<in> set prevTxs"
      by (metis nth_mem)
    moreover from that(3,4) have "nat k < length (tx_vout t)"
      by simp
    then have "tx_vout t ! nat k \<in> set (tx_vout t)"
      by (rule nth_mem)
    ultimately show ?thesis
      using assms by blast
  qed
  then show ?thesis
    by (auto simp: enrichInput_def at_index_def at_number_def Let_def split: option.splits)
qed

lemma all_fulfilled:
  "\<forall>v \<in> set vins. \<exists>x. f v = Inr x \<Longrightarrow> \<exists>xs. map f vins = map Inr xs"
proof (induction vins)
  case Nil
  then show ?case by simp
next
  case (Cons v vins)
  then obtain xs x where "map f vins = map Inr xs" and "f v = Inr x" by auto
  then have "map f (v # vins) = map Inr (x # xs)" by simp
  then show ?case by blast
qed

lemma length_prevTx_requests:
  "length (List.map_filter prevTx_request vins)
     = length (filter (\<lambda>v. \<not> truthy_bool (is_coinbase v)) vins)"
  by (induction vins) (auto simp: List.map_filter_simps prevTx_request_def)

section \<open>Claims on the route handler\<close>

text \<open>
  Claim C1, as stated: for every transaction whose identifier passes validation, if the
  fetch of a non-coinbase input's ancestor transaction fails, the request as a whole
  still succeeds and the affected input degrades to value 0 with absent address and
  script type. It fails: the rejected fetch rejects the second join, whose rejection
  reaches the catch block of the handler. Here the upstream answers 404 for the
  ancestor \<open>p2\<close> and the handler answers 502.
\<close>

theorem ancestor_fetch_failure_counterexample:
  "txid_regex_test (trim (or_empty (Some sample_txid)))
     \<and> fetchJson (tx_json (sample_upstream None 9000 404)) (tx_path sample_txid)
         = Inr (sample_tx None 9000)
     \<and> prevTx_request (tx_vin (sample_tx None 9000) ! 3) = Some (tx_path (str ''p2''))
     \<and> fetchJson (tx_json (sample_upstream None 9000 404)) (tx_path (str ''p2''))
         = Inl (UpstreamApiError 404 (tx_path (str ''p2'')))
     \<and> GET (sample_upstream None 9000 404) (Some sample_txid)
         = (Failure 502 upstream_failure_message,
            [tx_path sample_txid, hex_path sample_txid, outspends_path sample_txid,
             tx_path (str ''p1''), tx_path (str ''p1''), tx_path (str ''p2'')])"
  by code_simp

text \<open>
  Claim C1, amended: for every transaction whose identifier passes validation and whose
  transaction, raw hex and spend status are fetched, if the fetch of a non-coinbase
  input's ancestor transaction fails, the request as a whole fails with status 502 and
  no result is returned.
\<close>

theorem ancestor_fetch_failure_fails_request:
  assumes "txid_regex_test (trim (or_empty raw))"
    and "fetchJson (tx_json up) (tx_path (trim (or_empty raw))) = Inr tx"
    and "fetchText (text_body up) (hex_path (trim (or_empty raw))) = Inr hex"
    and "fetchJson (outspends_json up) (outspends_path (trim (or_empty raw))) = Inr os"
    and "v \<in> set (tx_vin tx)" and "\<not> truthy_bool (is_coinbase v)"
    and "fetchJson (tx_json up) (tx_path (vin_txid v)) = Inl e"
  shows "fst (GET up raw) = Failure 502 upstream_failure_message"
proof -
  from assms(6,7) have "prevTx_promise up v = Inl e"
    by (simp add: prevTx_promise_def prevTx_request_def)
  then have "prevTx_promise up v \<in> prevTx_promise up ` set (tx_vin tx) \<Longrightarrow>
      Inl e \<in> set (map (prevTx_promise up) (tx_vin tx))"
    by simp
  with assms(5) have "Inl e \<in> set (map (prevTx_promise up) (tx_vin tx))"
    by (simp only: imageI)
  from Promise_all_rejects [OF this]
  obtain e' where "Promise_all (map (prevTx_promise up) (tx_vin tx)) = Inl e'"
    by blast
  then show ?thesis
    by (simp add: GET_joined [OF refl assms(1-4)])
qed

theorem ancestor_fetch_failure_fails_request_witness:
  "fetchJson (tx_json (sample_upstream None 9000 500)) (tx_path (str ''p2''))
       = Inl (UpstreamApiError 500 (tx_path (str ''p2'')))
     \<and> fst (GET (sample_upstream None 9000 500) (Some padded_txid))
         = Failure 502 upstream_failure_message"
proof -
  let ?up = "sample_upstream None 9000 500"
  let ?t = "trim (or_empty (Some padded_txid))"
  have h1: "txid_regex_test ?t"
    by code_simp
  have h2: "fetchJson (tx_json ?up) (tx_path ?t) = Inr (sample_tx None 9000)"
    by code_simp
  have h3: "fetchText (text_body ?up) (hex_path ?t) = Inr (str ''0200'')"
    by code_simp
  have h4: "fetchJson (outspends_json ?up) (outspends_path ?t) = Inr [\<lparr> os_spent = True \<rparr>]"
    by code_simp
  have h5: "tx_vin (sample_tx None 9000) ! 3 \<in> set (tx_vin (sample_tx None 9000))"
    by code_simp
  have h6: "\<not> truthy_bool (is_coinbase (tx_vin (sample_tx None 9000) ! 3))"
    by code_simp
  have h7: "fetchJson (tx_json ?up) (tx_path (vin_txid (tx_vin (sample_tx None 9000) ! 3)))
              = Inl (UpstreamApiError 500 (tx_path (str ''p2'')))"
    by code_simp
  have c: "fetchJson (tx_json ?up) (tx_path (str ''p2''))
              = Inl (UpstreamApiError 500 (tx_path (str ''p2'')))"
    by code_simp
  from c ancestor_fetch_failure_fails_request [OF h1 h2 h3 h4 h5 h6 h7]
  show ?thesis by (rule conjI)
qed

text \<open>
  Claim C2, as stated: every supplied identifier string that is not exactly 64
  hexadecimal characters is rejected with status 400 and zero upstream calls. It fails
  for a string that is a valid identifier between whitespace: the handler trims the
  string before the test, accepts this one of 66 characters and sends its six requests.
\<close>

theorem untrimmed_identifier_counterexample:
  "\<not> txid_regex_test padded_txid
     \<and> length padded_txid = 66
     \<and> fst (GET (sample_upstream None 9000 200) (Some padded_txid))
         = Success (sample_result None 9000)
     \<and> length (snd (GET (sample_upstream None 9000 200) (Some padded_txid))) = 6"
  by code_simp

text \<open>
  Claim C2, amended: for every supplied identifier (an absent one counts as the empty
  string) that, once leading and trailing whitespace is trimmed, is not exactly 64
  hexadecimal characters (case-insensitive), the handler answers with the invalid
  identifier error, status 400, and performs zero upstream calls.
\<close>

theorem malformed_identifier_rejected:
  "\<not> txid_regex_test (trim (or_empty raw))
     \<Longrightarrow> GET up raw = (Failure 400 invalid_txid_message, [])"
  by (simp add: GET_def)

theorem malformed_identifier_rejected_witness:
  "\<not> txid_regex_test (trim (or_empty (Some (str ''  12ab-xyz ''))))
     \<and> GET (sample_upstream None 9000 200) (Some (str ''  12ab-xyz ''))
         = (Failure 400 invalid_txid_message, [])"
proof -
  have h: "\<not> txid_regex_test (trim (or_empty (Some (str ''  12ab-xyz ''))))"
    by code_simp
  from h malformed_identifier_rejected [OF h]
  show ?thesis by (rule conjI)
qed

text \<open>
  Claim C3. For every successfully explained transaction, if the upstream-declared fee is
  absent the reported fee equals max(totalInput - totalOutput, 0); if the
  upstream-declared fee is present it is used verbatim, even when it differs from
  totalInput - totalOutput.
\<close>

theorem fee_declared_or_difference:
  assumes "fst (GET up raw) = Success r"
  shows "\<exists>tx. fetchJson (tx_json up) (tx_path (trim (or_empty raw))) = Inr tx
           \<and> fee r = (case tx_fee tx of
                        Some declared \<Rightarrow> declared
                      | None \<Rightarrow> max (totalInput r - totalOutput r) 0)"
  using GET_SuccessD [OF assms] by (auto simp: explain_fields)

text \<open>
  The sample transaction has inputs worth 80000 and outputs worth 79000: a declared fee
  of 5 is reported as 5, an absent fee as 1000.
\<close>

theorem fee_declared_or_difference_witness:
  "fst (GET (sample_upstream (Some 5) 9000 200) (Some sample_txid))
       = Success (sample_result (Some 5) 9000)
     \<and> fee (sample_result (Some 5) 9000) = 5
     \<and> totalInput (sample_result (Some 5) 9000) - totalOutput (sample_result (Some 5) 9000) = 1000
     \<and> fst (GET (sample_upstream None 9000 200) (Some sample_txid))
         = Success (sample_result None 9000)
     \<and> fee (sample_result None 9000) = 1000"
proof -
  have h1: "fst (GET (sample_upstream (Some 5) 9000 200) (Some sample_txid))
              = Success (sample_result (Some 5) 9000)"
    by code_simp
  have t1: "fetchJson (tx_json (sample_upstream (Some 5) 9000 200))
              (tx_path (trim (or_empty (Some sample_txid)))) = Inr (sample_tx (Some 5) 9000)"
    by code_simp
  have h2: "fst (GET (sample_upstream None 9000 200) (Some sample_txid))
              = Success (sample_result None 9000)"
    by code_simp
  have t2: "fetchJson (tx_json (sample_upstream None 9000 200))
              (tx_path (trim (or_empty (Some sample_txid)))) = Inr (sample_tx None 9000)"
    by code_simp
  have d1: "totalInput (sample_result (Some 5) 9000) - totalOutput (sample_result (Some 5) 9000) = 1000"
    by code_simp
  have d2: "totalInput (sample_result None 9000) - totalOutput (sample_result None 9000) = 1000"
    by code_simp
  from fee_declared_or_difference [OF h1] t1
  have f1: "fee (sample_result (Some 5) 9000) = 5"
    by (simp add: sample_tx_def)
  from fee_declared_or_difference [OF h2] t2 d2
  have f2: "fee (sample_result None 9000) = 1000"
    by (simp add: sample_tx_def)
  from h1 f1 d1 h2 f2 show ?thesis by simp
qed

text \<open>
  Claim C4, as stated: for every valid identifier whose request succeeds, totalInput,
  totalOutput and fee are all non-negative, a declared fee being used only when it is
  non-negative. It fails: the handler reads the declared fee through \<open>??\<close> alone, so a
  declared fee of -1 is reported as -1; and the totals are sums of the values the
  upstream reports, so a negative output value gives a negative total.
\<close>

theorem negative_fee_counterexample:
  "txid_regex_test sample_txid
     \<and> fst (GET (sample_upstream (Some (- 1)) 9000 200) (Some sample_txid))
         = Success (sample_result (Some (- 1)) 9000)
     \<and> fee (sample_result (Some (- 1)) 9000) = - 1
     \<and> fst (GET (sample_upstream None (- 80000) 200) (Some sample_txid))
         = Success (sample_result None (- 80000))
     \<and> totalOutput (sample_result None (- 80000)) = - 10000"
  by code_simp

text \<open>
  Claim C4, amended: with amounts as exact integers (every value and sum within the exact
  integer range of a double), for every identifier whose request succeeds, when no
  output value that the upstream reports for the transaction or for a fetched ancestor
  of one of its inputs is negative, totalInput and totalOutput are non-negative; the
  reported fee is non-negative when the upstream declares no fee, and is the declared fee,
  whatever its sign, when the upstream declares one.
\<close>

theorem totals_non_negative:
  assumes "fst (GET up raw) = Success r"
    and "\<forall>tx. fetchJson (tx_json up) (tx_path (trim (or_empty raw))) = Inr tx \<longrightarrow>
           (\<forall>out \<in> set (tx_vout tx). 0 \<le> vout_value out)
           \<and> (\<forall>v \<in> set (tx_vin tx). \<not> truthy_bool (is_coinbase v) \<longrightarrow>
                 (\<forall>p. fetchJson (tx_json up) (tx_path (vin_txid v)) = Inr p \<longrightarrow>
                    (\<forall>out \<in> set (tx_vout p). 0 \<le> vout_value out)))"
  shows "0 \<le> totalInput r \<and> 0 \<le> totalOutput r
       \<and> (\<exists>tx. fetchJson (tx_json up) (tx_path (trim (or_empty raw))) = Inr tx
             \<and> (case tx_fee tx of None \<Rightarrow> 0 \<le> fee r | Some declared \<Rightarrow> fee r = declared))"
proof -
  from GET_SuccessD [OF assms(1)] obtain tx hex os prevTxs where
    tx: "fetchJson (tx_json up) (tx_path (trim (or_empty raw))) = Inr tx"
    and prev: "map (prevTx_promise up) (tx_vin tx) = map Inr prevTxs"
    and r: "r = explain (trim (or_empty raw)) tx hex os prevTxs"
    by blast
  from assms(2) tx have own: "\<forall>out \<in> set (tx_vout tx). 0 \<le> vout_value out"
    and anc: "\<forall>v \<in> set (tx_vin tx). \<not> truthy_bool (is_coinbase v) \<longrightarrow>
                 (\<forall>p. fetchJson (tx_json up) (tx_path (vin_txid v)) = Inr p \<longrightarrow>
                    (\<forall>out \<in> set (tx_vout p). 0 \<le> vout_value out))"
    by blast+
  have "\<forall>t. Some t \<in> set prevTxs \<longrightarrow> (\<forall>out \<in> set (tx_vout t). 0 \<le> vout_value out)"
  proof (intro allI impI)
    fix t assume "Some t \<in> set prevTxs"
    from prevTxs_fetched [OF prev this] obtain v where
      "v \<in> set (tx_vin tx)" "\<not> truthy_bool (is_coinbase v)"
      "fetchJson (tx_json up) (tx_path (vin_txid v)) = Inr t"
      by blast
    with anc show "\<forall>out \<in> set (tx_vout t). 0 \<le> vout_value out"
      by blast
  qed
  then have "\<forall>x \<in> set (map_indexed (enrichInput prevTxs) (tx_vin tx)). 0 \<le> in_value x"
    by (auto simp: map_indexed_def enrichInput_value_nonneg)
  then have tin: "0 \<le> totalInput r"
    unfolding r explain_fields by (intro foldl_add_nonneg) simp_all
  from own have tout: "0 \<le> totalOutput r"
    unfolding r explain_fields satsFromOutputs_def by (intro foldl_add_nonneg) simp_all
  have "case tx_fee tx of None \<Rightarrow> 0 \<le> fee r | Some declared \<Rightarrow> fee r = declared"
    unfolding r by (simp add: explain_fields(1) split: option.splits)
  with tin tout tx show ?thesis by blast
qed

theorem totals_non_negative_witness:
  "fst (GET (sample_upstream (Some 0) 9000 200) (Some sample_txid))
       = Success (sample_result (Some 0) 9000)
     \<and> 0 \<le> totalInput (sample_result (Some 0) 9000)
     \<and> 0 \<le> totalOutput (sample_result (Some 0) 9000)
     \<and> fee (sample_result (Some 0) 9000) = 0"
proof -
  let ?up = "sample_upstream (Some 0) 9000 200"
  have h1: "fst (GET ?up (Some sample_txid)) = Success (sample_result (Some 0) 9000)"
    by code_simp
  have t: "fetchJson (tx_json ?up) (tx_path (trim (or_empty (Some sample_txid))))
              = Inr (sample_tx (Some 0) 9000)"
    by code_simp
  have a: "\<forall>out \<in> set (tx_vout (sample_tx (Some 0) 9000)). 0 \<le> vout_value out"
    by code_simp
  have b: "\<forall>v \<in> set (tx_vin (sample_tx (Some 0) 9000)). \<not> truthy_bool (is_coinbase v) \<longrightarrow>
             (case fetchJson (tx_json ?up) (tx_path (vin_txid v)) of
                Inl e \<Rightarrow> True
              | Inr p \<Rightarrow> \<forall>out \<in> set (tx_vout p). 0 \<le> vout_value out)"
    by code_simp
  have h2: "\<forall>tx. fetchJson (tx_json ?up) (tx_path (trim (or_empty (Some sample_txid)))) = Inr tx \<longrightarrow>
           (\<forall>out \<in> set (tx_vout tx). 0 \<le> vout_value out)
           \<and> (\<forall>v \<in> set (tx_vin tx). \<not> truthy_bool (is_coinbase v) \<longrightarrow>
                 (\<forall>p. fetchJson (tx_json ?up) (tx_path (vin_txid v)) = Inr p \<longrightarrow>
                    (\<forall>out \<in> set (tx_vout p). 0 \<le> vout_value out)))"
  proof (intro allI impI)
    fix tx
    assume "fetchJson (tx_json ?up) (tx_path (trim (or_empty (Some sample_txid)))) = Inr tx"
    with t have tx: "tx = sample_tx (Some 0) 9000"
      by simp
    have "\<forall>v \<in> set (tx_vin tx). \<not> truthy_bool (is_coinbase v) \<longrightarrow>
                 (\<forall>p. fetchJson (tx_json ?up) (tx_path (vin_txid v)) = Inr p \<longrightarrow>
                    (\<forall>out \<in> set (tx_vout p). 0 \<le> vout_value out))"
      using b unfolding tx by force
    with a show "(\<forall>out \<in> set (tx_vout tx). 0 \<le> vout_value out)
           \<and> (\<forall>v \<in> set (tx_vin tx). \<not> truthy_bool (is_coinbase v) \<longrightarrow>
                 (\<forall>p. fetchJson (tx_json ?up) (tx_path (vin_txid v)) = Inr p \<longrightarrow>
                    (\<forall>out \<in> set (tx_vout p). 0 \<le> vout_value out)))"
      unfolding tx by blast
  qed
  from totals_non_negative [OF h1 h2] t
  have "0 \<le> totalInput (sample_result (Some 0) 9000)
      \<and> 0 \<le> totalOutput (sample_result (Some 0) 9000)
      \<and> fee (sample_result (Some 0) 9000) = 0"
    by (simp add: sample_tx_def)
  with h1 show ?thesis by simp
qed

section \<open>Claims on the change heuristic\<close>

text \<open>
  Claim C5. For every list of resolved inputs and every list of resolved outputs, the
  change heuristic returns either null or an index i with 0 \<le> i < length of the output
  sequence; it never returns an out-of-range index.
\<close>

theorem change_index_in_range:
  "guessChangeOutputIndex ins outs = None
     \<or> (\<exists>i < length outs. guessChangeOutputIndex ins outs = Some i)"
proof (cases "length outs < 2")
  case True
  then show ?thesis by (simp add: guessChangeOutputIndex_def)
next
  case False
  then have "2 \<le> length outs" by simp
  from guess_selects [OF this, of ins] obtain i where
    i: "guessChangeOutputIndex ins outs = Some i"
    and sf: "smallest_first outs (spec_remaining truthy_str ins outs) i"
    by blast
  from sf have "i < length outs"
    using spec_remaining_props(2) [where present = truthy_str and ins = ins and outs = outs]
    by (auto simp: smallest_first_def)
  with i show ?thesis by blast
qed

theorem change_index_in_range_witness:
  "guessChangeOutputIndex [sample_input (Some addrA)] tie_outputs = Some 1
     \<and> (1::nat) < length tie_outputs"
proof -
  have v: "guessChangeOutputIndex [sample_input (Some addrA)] tie_outputs = Some 1"
    by code_simp
  from change_index_in_range [of "[sample_input (Some addrA)]" tie_outputs] v
  show ?thesis by simp
qed

text \<open>
  Claim C6. For every list of resolved inputs and every output sequence containing fewer
  than two outputs (including exactly one output), the change heuristic returns null.
\<close>

theorem fewer_than_two_outputs_no_change:
  "length outs < 2 \<Longrightarrow> guessChangeOutputIndex ins outs = None"
  by (simp add: guessChangeOutputIndex_def)

theorem fewer_than_two_outputs_no_change_witness:
  "length [sample_output 0 5000 (Some addrA)] < 2
     \<and> guessChangeOutputIndex [sample_input (Some addrA)] [sample_output 0 5000 (Some addrA)] = None"
  using fewer_than_two_outputs_no_change
    [of "[sample_output 0 5000 (Some addrA)]" "[sample_input (Some addrA)]"]
  by simp

text \<open>
  Claim C7, as stated: with at least two outputs, the candidates are the outputs whose
  address is present and appears among the resolved input addresses (all outputs if none
  match), restricted to the values above 1000 (unrestricted if none is), and the result
  is the index of the smallest value, the first one on a tie. It fails when the empty
  string is an address on both sides: the code treats the empty string as no address,
  finds no match and falls back to all outputs.
\<close>

theorem change_selection_empty_address_counterexample:
  "2 \<le> length empty_address_outputs
     \<and> guessChangeOutputIndex [sample_input (Some [])] empty_address_outputs = Some 1
     \<and> spec_remaining is_present [sample_input (Some [])] empty_address_outputs = [0]
     \<and> \<not> smallest_first empty_address_outputs
           (spec_remaining is_present [sample_input (Some [])] empty_address_outputs) 1"
  by code_simp

text \<open>
  Claim C7, amended: with at least two outputs, the candidates are the outputs whose
  address is present and not the empty string and appears among the resolved input
  addresses (all outputs if none match), restricted to the candidates whose value exceeds
  1000 (unrestricted if none does), and the result is the original index of the candidate
  with the smallest value, the first one in output order on a tie.
\<close>

theorem change_selection_rule:
  assumes "2 \<le> length outs"
  shows "\<exists>i. guessChangeOutputIndex ins outs = Some i
           \<and> smallest_first outs (spec_remaining present_nonempty ins outs) i"
  using guess_selects [OF assms] by (simp add: truthy_str_present_nonempty)

theorem change_selection_rule_witness:
  "2 \<le> length tie_outputs
     \<and> guessChangeOutputIndex [sample_input (Some addrA)] tie_outputs = Some 1
     \<and> spec_remaining present_nonempty [sample_input (Some addrA)] tie_outputs = [1, 3]
     \<and> smallest_first tie_outputs
         (spec_remaining present_nonempty [sample_input (Some addrA)] tie_outputs) 1"
proof -
  have n: "2 \<le> length tie_outputs"
    by code_simp
  have v: "guessChangeOutputIndex [sample_input (Some addrA)] tie_outputs = Some 1"
    by code_simp
  have b: "spec_remaining present_nonempty [sample_input (Some addrA)] tie_outputs = [1, 3]"
    by code_simp
  from change_selection_rule [OF n, of "[sample_input (Some addrA)]"] v n b
  show ?thesis by simp
qed

section \<open>Claims on input resolution and trimming\<close>

text \<open>
  Claim C8. For every input flagged coinbase, no ancestor transaction fetch is performed,
  and its resolved input has value 0, address null, script type null, and the coinbase
  flag set. The input sends no request, the requests of the handler are the three
  primary ones and one for each input that is not flagged, and the resolved input is as
  said in every result.
\<close>

theorem coinbase_input_not_fetched:
  assumes "txid_regex_test (trim (or_empty raw))"
    and "fetchJson (tx_json up) (tx_path (trim (or_empty raw))) = Inr tx"
    and "fetchText (text_body up) (hex_path (trim (or_empty raw))) = Inr hex"
    and "fetchJson (outspends_json up) (outspends_path (trim (or_empty raw))) = Inr os"
    and "i < length (tx_vin tx)" and "truthy_bool (is_coinbase (tx_vin tx ! i))"
  shows "prevTx_request (tx_vin tx ! i) = None
       \<and> snd (GET up raw) =
           [tx_path (trim (or_empty raw)), hex_path (trim (or_empty raw)),
            outspends_path (trim (or_empty raw))]
           @ List.map_filter prevTx_request (tx_vin tx)
       \<and> length (snd (GET up raw)) =
           3 + length (filter (\<lambda>v. \<not> truthy_bool (is_coinbase v)) (tx_vin tx))
       \<and> (\<forall>r. fst (GET up raw) = Success r \<longrightarrow>
             inputs r ! i =
               \<lparr> in_txid = vin_txid (tx_vin tx ! i), in_vout = vin_vout (tx_vin tx ! i),
                 in_value = 0, in_address = None, in_scriptType = None, isCoinbase = True \<rparr>)"
proof -
  have req: "prevTx_request (tx_vin tx ! i) = None"
    using assms(6) by (simp add: prevTx_request_def)
  have calls: "snd (GET up raw) =
           [tx_path (trim (or_empty raw)), hex_path (trim (or_empty raw)),
            outspends_path (trim (or_empty raw))]
           @ List.map_filter prevTx_request (tx_vin tx)"
    by (simp add: GET_joined [OF refl assms(1-4)])
  have res: "inputs r ! i =
               \<lparr> in_txid = vin_txid (tx_vin tx ! i), in_vout = vin_vout (tx_vin tx ! i),
                 in_value = 0, in_address = None, in_scriptType = None, isCoinbase = True \<rparr>"
    if "fst (GET up raw) = Success r" for r
  proof -
    from that obtain prevTxs where
      prev: "map (prevTx_promise up) (tx_vin tx) = map Inr prevTxs"
      and r: "r = explain (trim (or_empty raw)) tx hex os prevTxs"
      by (auto simp: GET_joined [OF refl assms(1-4)] Promise_all_Inr_iff split: sum.splits)
    from prevTxs_nth [OF prev assms(5)] req
    have "at_index prevTxs i = Some None"
      by (auto simp: prevTx_promise_def)
    then show ?thesis
      using assms(5,6) by (simp add: r explain_fields enrichInput_def)
  qed
  from req calls res show ?thesis
    by (simp add: length_prevTx_requests)
qed

theorem coinbase_input_not_fetched_witness:
  "truthy_bool (is_coinbase (tx_vin (sample_tx None 9000) ! 0))
     \<and> snd (GET (sample_upstream None 9000 200) (Some sample_txid))
         = [tx_path sample_txid, hex_path sample_txid, outspends_path sample_txid,
            tx_path (str ''p1''), tx_path (str ''p1''), tx_path (str ''p2'')]
     \<and> inputs (sample_result None 9000) ! 0 =
         \<lparr> in_txid = str ''p0'', in_vout = 4294967295, in_value = 0, in_address = None,
           in_scriptType = None, isCoinbase = True \<rparr>"
proof -
  let ?up = "sample_upstream None 9000 200"
  let ?t = "trim (or_empty (Some sample_txid))"
  have h1: "txid_regex_test ?t"
    by code_simp
  have h2: "fetchJson (tx_json ?up) (tx_path ?t) = Inr (sample_tx None 9000)"
    by code_simp
  have h3: "fetchText (text_body ?up) (hex_path ?t) = Inr (str ''0200'')"
    by code_simp
  have h4: "fetchJson (outspends_json ?up) (outspends_path ?t) = Inr [\<lparr> os_spent = True \<rparr>]"
    by code_simp
  have h5: "0 < length (tx_vin (sample_tx None 9000))"
    by code_simp
  have h6: "truthy_bool (is_coinbase (tx_vin (sample_tx None 9000) ! 0))"
    by code_simp
  have ok: "fst (GET ?up (Some sample_txid)) = Success (sample_result None 9000)"
    by code_simp
  have t: "?t = sample_txid"
    by code_simp
  have calls: "List.map_filter prevTx_request (tx_vin (sample_tx None 9000))
                 = [tx_path (str ''p1''), tx_path (str ''p1''), tx_path (str ''p2'')]"
    by code_simp
  have v: "vin_txid (tx_vin (sample_tx None 9000) ! 0) = str ''p0''"
      "vin_vout (tx_vin (sample_tx None 9000) ! 0) = 4294967295"
    by code_simp+
  from coinbase_input_not_fetched [OF h1 h2 h3 h4 h5 h6] ok
  have "snd (GET ?up (Some sample_txid)) =
           [tx_path ?t, hex_path ?t, outspends_path ?t]
           @ List.map_filter prevTx_request (tx_vin (sample_tx None 9000))"
    and "inputs (sample_result None 9000) ! 0 =
           \<lparr> in_txid = vin_txid (tx_vin (sample_tx None 9000) ! 0),
             in_vout = vin_vout (tx_vin (sample_tx None 9000) ! 0),
             in_value = 0, in_address = None, in_scriptType = None, isCoinbase = True \<rparr>"
    by simp_all
  with h6 show ?thesis
    by (simp only: t calls v append.simps)
qed

text \<open>
  Claim C9, as stated: for every non-coinbase input whose ancestor transaction is fetched
  successfully but whose referenced output index is out of range of the ancestor's
  output sequence, the resolved input has value 0 and absent address and script type, and
  the request as a whole still succeeds. It fails when the ancestor of another input is
  not fetched: input 2 of the sample spends index 7 of \<open>p1\<close>, which is fetched and has
  one output, the upstream answers 404 for the ancestor \<open>p2\<close> of input 3, and the handler
  answers 502.
\<close>

theorem missing_output_index_counterexample:
  "txid_regex_test (trim (or_empty (Some sample_txid)))
     \<and> fetchJson (tx_json (sample_upstream None 9000 404)) (tx_path sample_txid)
         = Inr (sample_tx None 9000)
     \<and> \<not> truthy_bool (is_coinbase (tx_vin (sample_tx None 9000) ! 2))
     \<and> fetchJson (tx_json (sample_upstream None 9000 404))
           (tx_path (vin_txid (tx_vin (sample_tx None 9000) ! 2)))
         = Inr (funding_tx (str ''p1'') 50000)
     \<and> vin_vout (tx_vin (sample_tx None 9000) ! 2) = 7
     \<and> length (tx_vout (funding_tx (str ''p1'') 50000)) = 1
     \<and> fst (GET (sample_upstream None 9000 404) (Some sample_txid))
         = Failure 502 upstream_failure_message"
  by code_simp

text \<open>
  Claim C9, amended: for every non-coinbase input whose ancestor transaction is fetched
  successfully but whose referenced output index is out of range of the ancestor's
  output sequence, the resolved input has value 0 and absent address and script type in
  every result the handler returns, and the request as a whole succeeds when the
  transaction, its raw hex, its spend status and the ancestor of every other
  non-coinbase input are fetched successfully as well.
\<close>

theorem missing_output_index_degrades:
  assumes "txid_regex_test (trim (or_empty raw))"
    and "fetchJson (tx_json up) (tx_path (trim (or_empty raw))) = Inr tx"
    and "fetchText (text_body up) (hex_path (trim (or_empty raw))) = Inr hex"
    and "fetchJson (outspends_json up) (outspends_path (trim (or_empty raw))) = Inr os"
    and "i < length (tx_vin tx)" and "\<not> truthy_bool (is_coinbase (tx_vin tx ! i))"
    and "fetchJson (tx_json up) (tx_path (vin_txid (tx_vin tx ! i))) = Inr p"
    and "vin_vout (tx_vin tx ! i) < 0 \<or> int (length (tx_vout p)) \<le> vin_vout (tx_vin tx ! i)"
  shows "(\<forall>r. fst (GET up raw) = Success r \<longrightarrow>
            in_value (inputs r ! i) = 0 \<and> in_address (inputs r ! i) = None
            \<and> in_scriptType (inputs r ! i) = None)
       \<and> ((\<forall>v \<in> set (tx_vin tx). \<not> truthy_bool (is_coinbase v)
              \<longrightarrow> (\<exists>q. fetchJson (tx_json up) (tx_path (vin_txid v)) = Inr q))
            \<longrightarrow> (\<exists>r. fst (GET up raw) = Success r))"
proof (intro conjI allI impI)
  fix r
  assume "fst (GET up raw) = Success r"
  then obtain prevTxs where
    prev: "map (prevTx_promise up) (tx_vin tx) = map Inr prevTxs"
    and r: "r = explain (trim (or_empty raw)) tx hex os prevTxs"
    by (auto simp: GET_joined [OF refl assms(1-4)] Promise_all_Inr_iff split: sum.splits)
  from prevTxs_nth [OF prev assms(5)] assms(6,7)
  have "at_index prevTxs i = Some (Some p)"
    by (auto simp: prevTx_promise_def prevTx_request_def)
  moreover have "at_number (tx_vout p) (vin_vout (tx_vin tx ! i)) = None"
    using assms(8) by (auto simp: at_number_def)
  ultimately show "in_value (inputs r ! i) = 0" and "in_address (inputs r ! i) = None"
    and "in_scriptType (inputs r ! i) = None"
    using assms(5) by (simp_all add: r explain_fields enrichInput_def)
next
  assume "\<forall>v \<in> set (tx_vin tx). \<not> truthy_bool (is_coinbase v)
            \<longrightarrow> (\<exists>q. fetchJson (tx_json up) (tx_path (vin_txid v)) = Inr q)"
  then have "\<forall>v \<in> set (tx_vin tx). \<exists>x. prevTx_promise up v = Inr x"
    by (auto simp: prevTx_promise_def prevTx_request_def)
  from all_fulfilled [OF this] obtain prevTxs where
    "map (prevTx_promise up) (tx_vin tx) = map Inr prevTxs"
    by blast
  then have "fst (GET up raw) = Success (explain (trim (or_empty raw)) tx hex os prevTxs)"
    by (simp add: GET_joined [OF refl assms(1-4)] Promise_all_map_Inr)
  then show "\<exists>r. fst (GET up raw) = Success r"
    by blast
qed

theorem missing_output_index_degrades_witness:
  "vin_vout (tx_vin (sample_tx None 9000) ! 2) = 7
     \<and> length (tx_vout (funding_tx (str ''p1'') 50000)) = 1
     \<and> fst (GET (sample_upstream None 9000 200) (Some sample_txid))
         = Success (sample_result None 9000)
     \<and> in_value (inputs (sample_result None 9000) ! 2) = 0
     \<and> in_address (inputs (sample_result None 9000) ! 2) = None
     \<and> in_scriptType (inputs (sample_result None 9000) ! 2) = None"
proof -
  let ?up = "sample_upstream None 9000 200"
  let ?t = "trim (or_empty (Some sample_txid))"
  have h1: "txid_regex_test ?t"
    by code_simp
  have h2: "fetchJson (tx_json ?up) (tx_path ?t) = Inr (sample_tx None 9000)"
    by code_simp
  have h3: "fetchText (text_body ?up) (hex_path ?t) = Inr (str ''0200'')"
    by code_simp
  have h4: "fetchJson (outspends_json ?up) (outspends_path ?t) = Inr [\<lparr> os_spent = True \<rparr>]"
    by code_simp
  have h5: "\<forall>v \<in> set (tx_vin (sample_tx None 9000)). \<not> truthy_bool (is_coinbase v)
              \<longrightarrow> (\<exists>q. fetchJson (tx_json ?up) (tx_path (vin_txid v)) = Inr q)"
  proof -
    have "\<forall>v \<in> set (tx_vin (sample_tx None 9000)). \<not> truthy_bool (is_coinbase v)
            \<longrightarrow> \<not> isl (fetchJson (tx_json ?up) (tx_path (vin_txid v)))"
      by code_simp
    then show ?thesis
      by (metis sum.collapse(2))
  qed
  have h6: "2 < length (tx_vin (sample_tx None 9000))"
    by code_simp
  have h7: "\<not> truthy_bool (is_coinbase (tx_vin (sample_tx None 9000) ! 2))"
    by code_simp
  have h8: "fetchJson (tx_json ?up) (tx_path (vin_txid (tx_vin (sample_tx None 9000) ! 2)))
              = Inr (funding_tx (str ''p1'') 50000)"
    by code_simp
  have h9: "vin_vout (tx_vin (sample_tx None 9000) ! 2) < 0
              \<or> int (length (tx_vout (funding_tx (str ''p1'') 50000)))
                   \<le> vin_vout (tx_vin (sample_tx None 9000) ! 2)"
    by code_simp
  have c1: "vin_vout (tx_vin (sample_tx None 9000) ! 2) = 7"
    by code_simp
  have c2: "length (tx_vout (funding_tx (str ''p1'') 50000)) = 1"
    by code_simp
  from missing_output_index_degrades [OF h1 h2 h3 h4 h6 h7 h8 h9] h5
  obtain r where ok: "fst (GET ?up (Some sample_txid)) = Success r"
    and d: "in_value (inputs r ! 2) = 0 \<and> in_address (inputs r ! 2) = None
            \<and> in_scriptType (inputs r ! 2) = None"
    by blast
  have "fst (GET ?up (Some sample_txid)) = Success (sample_result None 9000)"
    by code_simp
  with ok d c1 c2 show ?thesis by simp
qed

text \<open>
  Claim C10. The supplied identifier string is trimmed of leading and trailing whitespace
  before the 64-hex-character check, so a string that is a valid 64-hex identifier
  surrounded by whitespace is accepted rather than rejected: the handler goes on with
  the trimmed identifier, its first three requests are the ones for that identifier, it
  does not answer with the invalid identifier error, and it does with the string all it
  does with the identifier alone.
\<close>

theorem surrounding_whitespace_trimmed:
  assumes "txid_regex_test h" and "list_all isWhiteSpace l" and "list_all isWhiteSpace r"
  shows "trim (l @ h @ r) = h
       \<and> GET up (Some (l @ h @ r)) = GET up (Some h)
       \<and> take 3 (snd (GET up (Some (l @ h @ r)))) = [tx_path h, hex_path h, outspends_path h]
       \<and> fst (GET up (Some (l @ h @ r))) \<noteq> Failure 400 invalid_txid_message
       \<and> (fst (GET up (Some (l @ h @ r))) = Failure 502 upstream_failure_message
            \<or> (\<exists>tx hex os prevTxs.
                  fetchJson (tx_json up) (tx_path h) = Inr tx
                  \<and> fst (GET up (Some (l @ h @ r))) = Success (explain h tx hex os prevTxs)))"
proof -
  have t: "trim (l @ h @ r) = h"
    by (rule trim_txid [OF assms])
  have "trim ([] @ h @ []) = h"
    by (rule trim_txid [OF assms(1)]) simp_all
  then have t0: "trim h = h" by simp
  have same: "GET up (Some (l @ h @ r)) = GET up (Some h)"
    by (simp add: GET_def t t0)
  have calls: "take 3 (snd (GET up (Some (l @ h @ r)))) = [tx_path h, hex_path h, outspends_path h]"
    using assms(1) by (auto simp: GET_def Let_def t split: sum.splits)
  have not400: "fst (GET up (Some (l @ h @ r))) \<noteq> Failure 400 invalid_txid_message"
    using GET_valid_not_400 [of "Some (l @ h @ r)" up] assms(1) t by simp
  have outcome: "fst (GET up (Some (l @ h @ r))) = Failure 502 upstream_failure_message
            \<or> (\<exists>tx hex os prevTxs.
                  fetchJson (tx_json up) (tx_path h) = Inr tx
                  \<and> fst (GET up (Some (l @ h @ r))) = Success (explain h tx hex os prevTxs))"
    using assms(1) by (auto simp: GET_def Let_def t split: sum.splits)
  from t same calls not400 outcome show ?thesis by blast
qed

theorem surrounding_whitespace_trimmed_witness:
  "txid_regex_test sample_txid
     \<and> trim (str '' '' @ sample_txid @ [0x0A]) = sample_txid
     \<and> GET (sample_upstream None 9000 200) (Some (str '' '' @ sample_txid @ [0x0A]))
         = GET (sample_upstream None 9000 200) (Some sample_txid)
     \<and> take 3 (snd (GET (sample_upstream None 9000 200) (Some (str '' '' @ sample_txid @ [0x0A]))))
         = [tx_path sample_txid, hex_path sample_txid, outspends_path sample_txid]
     \<and> fst (GET (sample_upstream None 9000 200) (Some (str '' '' @ sample_txid @ [0x0A])))
         = Success (sample_result None 9000)"
proof -
  have h1: "txid_regex_test sample_txid"
    by code_simp
  have h2: "list_all isWhiteSpace (str '' '')"
    by code_simp
  have h3: "list_all isWhiteSpace [0x0A]"
    by code_simp
  have ok: "fst (GET (sample_upstream None 9000 200) (Some sample_txid))
              = Success (sample_result None 9000)"
    by code_simp
  from surrounding_whitespace_trimmed [OF h1 h2 h3, of "sample_upstream None 9000 200"]
  have a: "trim (str '' '' @ sample_txid @ [0x0A]) = sample_txid"
    and b: "GET (sample_upstream None 9000 200) (Some (str '' '' @ sample_txid @ [0x0A]))
              = GET (sample_upstream None 9000 200) (Some sample_txid)"
    and c: "take 3 (snd (GET (sample_upstream None 9000 200)
                           (Some (str '' '' @ sample_txid @ [0x0A]))))
              = [tx_path sample_txid, hex_path sample_txid, outspends_path sample_txid]"
    by blast+
  from b ok have d: "fst (GET (sample_upstream None 9000 200)
                            (Some (str '' '' @ sample_txid @ [0x0A])))
              = Success (sample_result None 9000)"
    by (simp only:)
  from h1 a b c d show ?thesis by blast
qed

end
